theory Spec2Isabelle
  imports Main "HOL-Library.Word"
begin

unbundle bit_operations_syntax

section \<open>Data model\<close>

text \<open>
  The block parser of the markdown processor works on a byte slice and builds a tree of
  nodes through a processor object that remembers the innermost open node (the tip).
  Bytes are characters, a slice is a list, an index is a natural number. Nodes live in
  an arena (the list \<open>nodes\<close> of the processor); a pointer to a node is its index there
  and the nil pointer is \<open>None\<close>.
\<close>

type_synonym byte = char

abbreviation NL :: byte where "NL \<equiv> CHR 0x0A"
abbreviation TAB :: byte where "TAB \<equiv> CHR 0x09"
abbreviation SP :: byte where "SP \<equiv> CHR '' ''"

text \<open>Run-time panics of the source, and the exhaustion of the model's fuel.\<close>

datatype error = OutOfFuel | IndexOutOfRange | NilPointer | ParentClosed

definition bnd :: "error + 'a \<Rightarrow> ('a \<Rightarrow> error + 'b) \<Rightarrow> error + 'b" where
  "bnd m f = (case m of Inl e \<Rightarrow> Inl e | Inr x \<Rightarrow> f x)"

text \<open>\<open>data[i]\<close> where the source does not test \<open>i < len(data)\<close> first.\<close>

definition at :: "byte list \<Rightarrow> nat \<Rightarrow> error + byte" where
  "at data i = (if i < length data then Inr (data ! i) else Inl IndexOutOfRange)"

text \<open>\<open>data[a:b]\<close> and \<open>data[a:]\<close>.\<close>

definition slice :: "byte list \<Rightarrow> nat \<Rightarrow> nat \<Rightarrow> error + byte list" where
  "slice data a b =
     (if a \<le> b \<and> b \<le> length data then Inr (take (b - a) (drop a data))
      else Inl IndexOutOfRange)"

definition sliceFrom :: "byte list \<Rightarrow> nat \<Rightarrow> error + byte list" where
  "sliceFrom data a = (if a \<le> length data then Inr (drop a data) else Inl IndexOutOfRange)"

subsection \<open>Flags\<close>

type_synonym Extensions = int
type_synonym ListType = int
type_synonym CellAlignFlags = int

definition NoExtensions :: Extensions where "NoExtensions = 0"
definition NoIntraEmphasis :: Extensions where "NoIntraEmphasis = 2"
definition Tables :: Extensions where "Tables = 4"
definition Autolink :: Extensions where "Autolink = 8"
definition Strikethrough :: Extensions where "Strikethrough = 16"
definition HardLineBreak :: Extensions where "HardLineBreak = 32"
definition NoEmptyLineBeforeBlock :: Extensions where "NoEmptyLineBeforeBlock = 64"
definition BackslashLineBreak :: Extensions where "BackslashLineBreak = 128"
definition DefinitionLists :: Extensions where "DefinitionLists = 256"

definition MfnStandardExtensions :: Extensions where
  "MfnStandardExtensions =
     NoIntraEmphasis OR Tables OR Strikethrough OR Autolink OR NoEmptyLineBeforeBlock
       OR BackslashLineBreak"

definition ListTypeOrdered :: ListType where "ListTypeOrdered = 1"
definition ListTypeDefinition :: ListType where "ListTypeDefinition = 2"
definition ListTypeTerm :: ListType where "ListTypeTerm = 4"
definition ListItemContainsBlock :: ListType where "ListItemContainsBlock = 8"
definition ListItemBeginningOfList :: ListType where "ListItemBeginningOfList = 16"
definition ListItemEndOfList :: ListType where "ListItemEndOfList = 32"

definition TableAlignmentLeft :: CellAlignFlags where "TableAlignmentLeft = 1"
definition TableAlignmentRight :: CellAlignFlags where "TableAlignmentRight = 2"
definition TableAlignmentCenter :: CellAlignFlags where
  "TableAlignmentCenter = (TableAlignmentLeft OR TableAlignmentRight)"

subsection \<open>Nodes\<close>

text \<open>
  The node types of the block level; the inline kinds produced downstream are
  \<open>Inline k\<close>.
\<close>

datatype NodeType =
    Document | BlockQuote | List | Item | Paragraph | HorizontalRule
  | Table | TableHead | TableBody | TableRow | TableCell | Inline nat

text \<open>
  Modelled from the spec: the node structure itself is declared in a file that is not
  part of the sources at hand; only its uses are. The fields are those the block parser
  reads and writes (\<open>Type\<close>, \<open>Parent\<close>, \<open>content\<close>, \<open>open\<close>, the list data and the
  table-cell data). The spec gives each parent the exclusive ownership of an ordered
  child list and each child a back-reference to its parent and siblings; the child list
  is kept here as the list of the children's addresses, from which \<open>FirstChild\<close>,
  \<open>LastChild\<close> and \<open>Next\<close> are read off. A nil \<open>content\<close> is \<open>None\<close>.
\<close>

record Node =
  Type :: NodeType
  Parent :: "nat option"
  children :: "nat list"
  content :: "byte list option"
  is_open :: bool
  ListFlags :: ListType
  Tight :: bool
  BulletChar :: byte
  Delimiter :: byte
  IsHeader :: bool
  Align :: CellAlignFlags

text \<open>
  The processor. \<open>inlineEngine\<close> stands for the table of inline callbacks, which
  belongs to the inline grammar and is outside the block parser: it maps a raw
  content to the inline nodes (kind and literal) it produces.
\<close>

record Markdown =
  inlineEngine :: "byte list \<Rightarrow> (nat \<times> byte list) list"
  extensions :: Extensions
  nesting :: nat
  maxNesting :: nat
  insideLink :: bool
  doc :: "nat option"
  tip :: "nat option"
  oldTip :: "nat option"
  lastMatchedContainer :: "nat option"
  allClosed :: bool
  nodes :: "Node list"

text \<open>Reading and updating the node a pointer refers to.\<close>

definition deref :: "Markdown \<Rightarrow> nat option \<Rightarrow> error + Node" where
  "deref p a =
     (case a of None \<Rightarrow> Inl NilPointer
      | Some i \<Rightarrow> if i < length (nodes p) then Inr (nodes p ! i) else Inl NilPointer)"

definition upd :: "Markdown \<Rightarrow> nat \<Rightarrow> (Node \<Rightarrow> Node) \<Rightarrow> Markdown" where
  "upd p a f = p\<lparr>nodes := (nodes p)[a := f (nodes p ! a)]\<rparr>"

text \<open>
  Modelled from the spec: \<open>NewNode\<close> is not in the sources; the spec's \<open>createNode\<close>
  returns a new, open, childless node with no parent.
\<close>

definition NewNode :: "NodeType \<Rightarrow> Node" where
  "NewNode typ =
     \<lparr>Type = typ, Parent = None, children = [], content = None, is_open = True,
      ListFlags = 0, Tight = False, BulletChar = CHR 0x00, Delimiter = CHR 0x00,
      IsHeader = False, Align = 0\<rparr>"

definition alloc :: "Markdown \<Rightarrow> Node \<Rightarrow> Markdown \<times> nat" where
  "alloc p n = (p\<lparr>nodes := nodes p @ [n]\<rparr>, length (nodes p))"

text \<open>
  Modelled from the spec: \<open>Unlink\<close> (the spec's \<open>detachFromParent\<close>) is not in the
  sources; it removes the node from its parent's child list and clears its parent and
  sibling back-references.
\<close>

definition Unlink :: "Markdown \<Rightarrow> nat \<Rightarrow> Markdown" where
  "Unlink p a =
     (case Parent (nodes p ! a) of
        None \<Rightarrow> p
      | Some q \<Rightarrow>
          upd (upd p q (\<lambda>n. n\<lparr>children := removeAll a (children n)\<rparr>)) a
            (\<lambda>n. n\<lparr>Parent := None\<rparr>))"

text \<open>
  Modelled from the spec: \<open>AppendChild\<close> is not in the sources; it transfers the
  ownership of the child to the parent, as its last child, and fails only if the parent
  is not open.
\<close>

definition AppendChild :: "Markdown \<Rightarrow> nat \<Rightarrow> nat \<Rightarrow> error + Markdown" where
  "AppendChild p a c =
     (if \<not> is_open (nodes p ! a) then Inl ParentClosed
      else let p1 = Unlink p c
           in Inr (upd (upd p1 a (\<lambda>n. n\<lparr>children := children n @ [c]\<rparr>)) c
                    (\<lambda>n. n\<lparr>Parent := Some a\<rparr>)))"

text \<open>
  Modelled from the spec: \<open>canContain\<close> is not in the sources. The spec's
  compatibility rule: a List can contain only Item children, a Document can contain any
  top-level block, a Paragraph (as every leaf) can contain no block children; the
  containers are Document, BlockQuote, List, Item, and Table with its substructure.
\<close>

fun canContain :: "NodeType \<Rightarrow> NodeType \<Rightarrow> bool" where
  "canContain List t = (t = Item)"
| "canContain Document t = (t \<noteq> Item)"
| "canContain BlockQuote t = (t \<noteq> Item)"
| "canContain Item t = (t \<noteq> Item)"
| "canContain Table t = (t = TableHead \<or> t = TableBody)"
| "canContain TableHead t = (t = TableRow)"
| "canContain TableBody t = (t = TableRow)"
| "canContain TableRow t = (t = TableCell)"
| "canContain _ t = False"

definition FirstChild :: "Markdown \<Rightarrow> nat \<Rightarrow> nat option" where
  "FirstChild p a = (case children (nodes p ! a) of [] \<Rightarrow> None | c # _ \<Rightarrow> Some c)"

definition LastChild :: "Markdown \<Rightarrow> nat \<Rightarrow> nat option" where
  "LastChild p a =
     (case children (nodes p ! a) of [] \<Rightarrow> None | c # cs \<Rightarrow> Some (last (c # cs)))"

fun successor :: "nat list \<Rightarrow> nat \<Rightarrow> nat option" where
  "successor [] a = None"
| "successor [c] a = None"
| "successor (c # d # cs) a = (if c = a then Some d else successor (d # cs) a)"

definition Next :: "Markdown \<Rightarrow> nat \<Rightarrow> nat option" where
  "Next p a =
     (case Parent (nodes p ! a) of None \<Rightarrow> None
      | Some q \<Rightarrow> successor (children (nodes p ! q)) a)"

section \<open>The tip tracker\<close>

definition finalize :: "Markdown \<Rightarrow> nat option \<Rightarrow> error + Markdown" where
  "finalize p block =
     bnd (deref p block) (\<lambda>b.
       let above = Parent b
       in Inr ((upd p (the block) (\<lambda>n. n\<lparr>is_open := False\<rparr>))\<lparr>tip := above\<rparr>))"

text \<open>
  The loop of \<open>addExistingChild\<close> closes the tip and moves to its parent until the tip
  can contain the new node. The parent links do not change while it runs, so it either
  ends within as many steps as there are nodes or follows a cycle for ever; the counter
  \<open>k\<close> starts above the number of nodes and its exhaustion is the second case.
\<close>

fun addExistingChild_loop :: "nat \<Rightarrow> Markdown \<Rightarrow> NodeType \<Rightarrow> error + Markdown" where
  "addExistingChild_loop 0 p t = Inl OutOfFuel"
| "addExistingChild_loop (Suc k) p t =
     bnd (deref p (tip p)) (\<lambda>n.
       if \<not> canContain (Type n) t
       then bnd (finalize p (tip p)) (\<lambda>p'. addExistingChild_loop k p' t)
       else Inr p)"

definition addExistingChild :: "Markdown \<Rightarrow> nat \<Rightarrow> error + Markdown \<times> nat" where
  "addExistingChild p node =
     bnd (addExistingChild_loop (Suc (length (nodes p))) p (Type (nodes p ! node))) (\<lambda>p1.
     bnd (AppendChild p1 (the (tip p1)) node) (\<lambda>p2.
       Inr (p2\<lparr>tip := Some node\<rparr>, node)))"

definition addChild :: "Markdown \<Rightarrow> NodeType \<Rightarrow> error + Markdown \<times> nat" where
  "addChild p node = (case alloc p (NewNode node) of (p1, a) \<Rightarrow> addExistingChild p1 a)"

fun closeUnmatchedBlocks_loop :: "nat \<Rightarrow> Markdown \<Rightarrow> error + Markdown" where
  "closeUnmatchedBlocks_loop 0 p = Inl OutOfFuel"
| "closeUnmatchedBlocks_loop (Suc k) p =
     (if oldTip p \<noteq> lastMatchedContainer p
      then bnd (deref p (oldTip p)) (\<lambda>n.
             let parent = Parent n
             in bnd (finalize p (oldTip p)) (\<lambda>p'.
                  closeUnmatchedBlocks_loop k (p'\<lparr>oldTip := parent\<rparr>)))
      else Inr p)"

definition closeUnmatchedBlocks :: "Markdown \<Rightarrow> error + Markdown" where
  "closeUnmatchedBlocks p =
     (if \<not> allClosed p
      then bnd (closeUnmatchedBlocks_loop (Suc (length (nodes p))) p) (\<lambda>p'.
             Inr (p'\<lparr>allClosed := True\<rparr>))
      else Inr p)"

definition addBlock ::
  "Markdown \<Rightarrow> NodeType \<Rightarrow> byte list option \<Rightarrow> error + Markdown \<times> nat" where
  "addBlock p typ cont =
     bnd (closeUnmatchedBlocks p) (\<lambda>p1.
     bnd (addChild p1 typ) (\<lambda>(p2, container).
       Inr (upd p2 container (\<lambda>n. n\<lparr>content := cont\<rparr>), container)))"

section \<open>Leaf recognizers\<close>

lemma bnd_cong [fundef_cong]:
  "m = m' \<Longrightarrow> (\<And>x. m' = Inr x \<Longrightarrow> f x = f' x) \<Longrightarrow> bnd m f = bnd m' f'"
  by (cases m') (simp_all add: bnd_def)

function skipChar :: "byte list \<Rightarrow> nat \<Rightarrow> byte \<Rightarrow> nat" where
  "skipChar data i c =
     (if i < length data \<and> data ! i = c then skipChar data (Suc i) c else i)"
  by pat_completeness auto
termination
  by (relation "measure (\<lambda>(data, i, c). length data - i)") auto

declare skipChar.simps [simp del]

text \<open>The loop \<open>for i < len(data) && data[i] != '\n'\<close>: the end of the line at \<open>i\<close>.\<close>

function lineEnd :: "byte list \<Rightarrow> nat \<Rightarrow> nat" where
  "lineEnd data i = (if i < length data \<and> data ! i \<noteq> NL then lineEnd data (Suc i) else i)"
  by pat_completeness auto
termination
  by (relation "measure (\<lambda>(data, i). length data - i)") auto

declare lineEnd.simps [simp del]

text \<open>The loop of \<open>isEmpty\<close>; \<open>None\<close> is its \<open>return 0\<close>.\<close>

function isEmpty_loop :: "byte list \<Rightarrow> nat \<Rightarrow> nat option" where
  "isEmpty_loop data i =
     (if i < length data \<and> data ! i \<noteq> NL
      then if data ! i \<noteq> SP \<and> data ! i \<noteq> TAB then None else isEmpty_loop data (Suc i)
      else Some i)"
  by pat_completeness auto
termination
  by (relation "measure (\<lambda>(data, i). length data - i)") auto

declare isEmpty_loop.simps [simp del]

definition isEmpty :: "byte list \<Rightarrow> nat" where
  "isEmpty data =
     (if length data = 0 then 0
      else case isEmpty_loop data 0 of
             None \<Rightarrow> 0
           | Some i \<Rightarrow> if i < length data \<and> data ! i = NL then i + 1 else i)"

text \<open>
  \<open>isHRule\<close> reads \<open>data[i]\<close> without comparing \<open>i\<close> with the length, while it skips
  up to three spaces and when it looks at the rule character.
\<close>

function isHRule_skip :: "byte list \<Rightarrow> nat \<Rightarrow> error + nat" where
  "isHRule_skip data i =
     (if i < 3
      then if i < length data
           then if data ! i = SP then isHRule_skip data (Suc i) else Inr i
           else Inl IndexOutOfRange
      else Inr i)"
  by pat_completeness auto
termination
  by (relation "measure (\<lambda>(data, i). 3 - i)") auto

declare isHRule_skip.simps [simp del]

text \<open>The loop over the line; \<open>None\<close> is its \<open>return false\<close>, \<open>Some n\<close> the count.\<close>

function isHRule_loop :: "byte list \<Rightarrow> byte \<Rightarrow> nat \<Rightarrow> nat \<Rightarrow> nat option" where
  "isHRule_loop data c i n =
     (if i < length data \<and> data ! i \<noteq> NL
      then if data ! i = c then isHRule_loop data c (Suc i) (Suc n)
           else if data ! i \<noteq> SP then None
           else isHRule_loop data c (Suc i) n
      else Some n)"
  by pat_completeness auto
termination
  by (relation "measure (\<lambda>(data, c, i, n). length data - i)") auto

declare isHRule_loop.simps [simp del]

definition isHRule :: "byte list \<Rightarrow> error + bool" where
  "isHRule data =
     bnd (isHRule_skip data 0) (\<lambda>i.
     bnd (at data i) (\<lambda>c.
       if c \<noteq> CHR ''*'' \<and> c \<noteq> CHR ''-'' \<and> c \<noteq> CHR ''_'' then Inr False
       else case isHRule_loop data c i 0 of
              None \<Rightarrow> Inr False
            | Some n \<Rightarrow> Inr (n \<ge> 3)))"

text \<open>
  The loop \<open>for i < 3 && i < len(data) && data[i] == ' '\<close> that starts \<open>quotePrefix\<close>,
  \<open>uliPrefix\<close> and \<open>oliPrefix\<close>.
\<close>

function skipSpaces3 :: "byte list \<Rightarrow> nat \<Rightarrow> nat" where
  "skipSpaces3 data i =
     (if i < 3 \<and> i < length data \<and> data ! i = SP then skipSpaces3 data (Suc i) else i)"
  by pat_completeness auto
termination
  by (relation "measure (\<lambda>(data, i). 3 - i)") auto

declare skipSpaces3.simps [simp del]

definition quotePrefix :: "byte list \<Rightarrow> nat" where
  "quotePrefix data =
     (let i = skipSpaces3 data 0
      in if i < length data \<and> data ! i = CHR ''>''
         then if i + 1 < length data \<and> data ! (i + 1) = SP then i + 2 else i + 1
         else 0)"

definition uliPrefix :: "byte list \<Rightarrow> nat" where
  "uliPrefix data =
     (let i = skipSpaces3 data 0
      in if i \<ge> length data - 1 then 0
         else if (data ! i \<noteq> CHR ''*'' \<and> data ! i \<noteq> CHR ''+'' \<and> data ! i \<noteq> CHR ''-'')
                 \<or> (data ! (i + 1) \<noteq> SP \<and> data ! (i + 1) \<noteq> TAB) then 0
         else i + 2)"

definition isdigit :: "byte \<Rightarrow> bool" where
  "isdigit c = ((48::nat) \<le> of_char c \<and> of_char c \<le> (57::nat))"

function oliPrefix_digits :: "byte list \<Rightarrow> nat \<Rightarrow> nat" where
  "oliPrefix_digits data i =
     (if i < length data \<and> isdigit (data ! i) then oliPrefix_digits data (Suc i) else i)"
  by pat_completeness auto
termination
  by (relation "measure (\<lambda>(data, i). length data - i)") auto

declare oliPrefix_digits.simps [simp del]

definition oliPrefix :: "byte list \<Rightarrow> nat" where
  "oliPrefix data =
     (let start = skipSpaces3 data 0;
          i = oliPrefix_digits data start
      in if start = i \<or> i \<ge> length data - 1 then 0
         else if data ! i \<noteq> CHR ''.'' \<or> \<not> (data ! (i + 1) = SP \<or> data ! (i + 1) = TAB) then 0
         else i + 2)"

definition dliPrefix :: "byte list \<Rightarrow> nat" where
  "dliPrefix data =
     (if length data < 2 then 0
      else if data ! 0 \<noteq> CHR '':'' \<or> \<not> (data ! 1 = SP \<or> data ! 1 = TAB) then 0
      else skipChar data 0 SP + 2)"

text \<open>
  \<open>isBackslashEscaped\<close> reads \<open>data[i-backslashes-1]\<close>, an index below \<open>i\<close>; each of
  its calls stands behind a test \<open>i < len(data)\<close>.
\<close>

function isBackslashEscaped_loop :: "byte list \<Rightarrow> nat \<Rightarrow> nat \<Rightarrow> nat" where
  "isBackslashEscaped_loop data i backslashes =
     (if backslashes + 1 \<le> i \<and> data ! (i - backslashes - 1) = CHR 0x5C
      then isBackslashEscaped_loop data i (Suc backslashes)
      else backslashes)"
  by pat_completeness auto
termination
  by (relation "measure (\<lambda>(data, i, b). i - b)") auto

declare isBackslashEscaped_loop.simps [simp del]

definition isBackslashEscaped :: "byte list \<Rightarrow> nat \<Rightarrow> bool" where
  "isBackslashEscaped data i = (isBackslashEscaped_loop data i 0 mod 2 = 1)"

definition listTypeChanged :: "byte list \<Rightarrow> ListType \<Rightarrow> bool" where
  "listTypeChanged data flags =
     (if dliPrefix data > 0 \<and> flags AND ListTypeDefinition = 0 then True
      else if oliPrefix data > 0 \<and> flags AND ListTypeOrdered = 0 then True
      else if uliPrefix data > 0
              \<and> (flags AND ListTypeOrdered \<noteq> 0 \<or> flags AND ListTypeDefinition \<noteq> 0) then True
      else False)"

section \<open>Tables\<close>

text \<open>The first loop of \<open>tableHeader\<close> counts the unescaped pipes of the header line.\<close>

function tableHeader_count :: "byte list \<Rightarrow> nat \<Rightarrow> nat \<Rightarrow> nat \<times> nat" where
  "tableHeader_count data i colCount =
     (if i < length data \<and> data ! i \<noteq> NL
      then tableHeader_count data (Suc i)
             (if data ! i = CHR ''|'' \<and> \<not> isBackslashEscaped data i
              then Suc colCount else colCount)
      else (i, colCount))"
  by pat_completeness auto
termination
  by (relation "measure (\<lambda>(data, i, n). length data - i)") auto

declare tableHeader_count.simps [simp del]

text \<open>
  One column of the underline: an optional colon, the dashes, an optional colon and
  the spaces after them. \<open>dashes\<close> counts the colons as well as the dashes. The result is
  the index reached, the alignment flags and the count.
\<close>

definition tableHeader_column ::
  "byte list \<Rightarrow> nat \<Rightarrow> nat \<Rightarrow> CellAlignFlags list
     \<Rightarrow> error + (nat \<times> CellAlignFlags list \<times> nat)" where
  "tableHeader_column data i col columns =
     bnd (if data ! i = CHR '':''
          then if col < length columns
               then Inr (i + 1, columns[col := columns ! col OR TableAlignmentLeft], 1)
               else Inl IndexOutOfRange
          else Inr (i, columns, 0)) (\<lambda>(i1, columns1, dashes1).
     let i2 = skipChar data i1 (CHR ''-'');
         dashes2 = dashes1 + (i2 - i1)
     in bnd (if i2 < length data \<and> data ! i2 = CHR '':''
             then if col < length columns1
                  then Inr (i2 + 1, columns1[col := columns1 ! col OR TableAlignmentRight],
                            dashes2 + 1)
                  else Inl IndexOutOfRange
             else Inr (i2, columns1, dashes2)) (\<lambda>(i3, columns3, dashes3).
          Inr (skipChar data i3 SP, columns3, dashes3)))"

lemma skipChar_ge: "i \<le> skipChar data i c"
proof (induction data i c rule: skipChar.induct)
  case (1 data i c)
  show ?case
  proof (cases "i < length data \<and> data ! i = c")
    case True
    with 1 have "Suc i \<le> skipChar data (Suc i) c" by simp
    with True show ?thesis by (subst skipChar.simps) simp
  next
    case False
    then show ?thesis by (subst skipChar.simps) auto
  qed
qed

lemma tableHeader_column_ge:
  "tableHeader_column data i col columns = Inr (j, cs, d) \<Longrightarrow> i \<le> j"
proof -
  have a: "\<And>k c. k \<le> skipChar data k c" by (rule skipChar_ge)
  have b: "\<And>k c. Suc k \<le> skipChar data (Suc k) c" by (rule skipChar_ge)
  assume "tableHeader_column data i col columns = Inr (j, cs, d)"
  then show ?thesis
    using a [of i "CHR ''-''"] b [of i "CHR ''-''"]
      a [of "skipChar data i (CHR ''-'')" SP] b [of "skipChar data i (CHR ''-'')" SP]
      a [of "skipChar data (Suc i) (CHR ''-'')" SP]
      b [of "skipChar data (Suc i) (CHR ''-'')" SP]
    by (auto simp: tableHeader_column_def bnd_def Let_def split: if_splits)
qed

text \<open>
  The loop over the columns of the underline. The first component of the result tells
  whether the loop ran to its end (\<open>True\<close>) or the function returned from inside it
  (\<open>False\<close>). In the case of a newline the loop's own test ends it at once.
\<close>

function tableHeader_loop ::
  "byte list \<Rightarrow> nat \<Rightarrow> nat \<Rightarrow> nat \<Rightarrow> CellAlignFlags list
     \<Rightarrow> error + (bool \<times> nat \<times> nat \<times> CellAlignFlags list)" where
  "tableHeader_loop data colCount i col columns =
     (if i < length data \<and> data ! i \<noteq> NL
      then bnd (tableHeader_column data i col columns) (\<lambda>(i4, columns4, dashes).
             if i4 = length data then Inr (False, i4, col, columns4)
             else if dashes < 3 then Inr (False, i4, col, columns4)
             else if data ! i4 = CHR ''|'' \<and> \<not> isBackslashEscaped data i4
             then let col5 = col + 1;
                      i5 = skipChar data (i4 + 1) SP
                  in if col5 \<ge> colCount \<and> i5 < length data \<and> data ! i5 \<noteq> NL
                     then Inr (False, i5, col5, columns4)
                     else tableHeader_loop data colCount i5 col5 columns4
             else if (data ! i4 \<noteq> CHR ''|'' \<or> isBackslashEscaped data i4)
                     \<and> col + 1 < colCount
             then Inr (False, i4, col, columns4)
             else if data ! i4 = NL then Inr (True, i4, col + 1, columns4)
             else Inr (False, i4, col, columns4))
      else Inr (True, i, col, columns))"
  by pat_completeness auto
termination
proof (relation "measure (\<lambda>(data, colCount, i, col, columns). length data - i)", goal_cases)
  case 1
  show ?case by simp
next
  case (2 data colCount i col columns x i4 y columns4 dashes col5 i5)
  from 2 have "i \<le> i4" using tableHeader_column_ge by metis
  moreover have "i4 + 1 \<le> i5" using 2 skipChar_ge by metis
  ultimately show ?case using 2 by auto
qed

declare tableHeader_loop.simps [simp del]

text \<open>The loops of \<open>tableRow\<close>: to the end of the cell, and back over its spaces.\<close>

function tableRow_scan :: "byte list \<Rightarrow> nat \<Rightarrow> nat" where
  "tableRow_scan data i =
     (if i < length data \<and> (data ! i \<noteq> CHR ''|'' \<or> isBackslashEscaped data i)
         \<and> data ! i \<noteq> NL
      then tableRow_scan data (Suc i) else i)"
  by pat_completeness auto
termination
  by (relation "measure (\<lambda>(data, i). length data - i)") auto

declare tableRow_scan.simps [simp del]

function tableRow_trim :: "byte list \<Rightarrow> nat \<Rightarrow> nat \<Rightarrow> nat" where
  "tableRow_trim data cellStart cellEnd =
     (if cellEnd > cellStart \<and> cellEnd - 1 < length data \<and> data ! (cellEnd - 1) = SP
      then tableRow_trim data cellStart (cellEnd - 1) else cellEnd)"
  by pat_completeness auto
termination
  by (relation "measure (\<lambda>(data, cellStart, cellEnd). cellEnd)") auto

declare tableRow_trim.simps [simp del]

function tableRow_cells ::
  "Markdown \<Rightarrow> byte list \<Rightarrow> CellAlignFlags list \<Rightarrow> bool \<Rightarrow> nat \<Rightarrow> nat
     \<Rightarrow> error + Markdown \<times> nat" where
  "tableRow_cells p data columns header i col =
     (if col < length columns \<and> i < length data
      then let cellStart = skipChar data i SP;
               i2 = tableRow_scan data cellStart;
               cellEnd = tableRow_trim data cellStart i2
           in bnd (slice data cellStart cellEnd) (\<lambda>c.
              bnd (addBlock p TableCell (Some c)) (\<lambda>(p1, cell).
                tableRow_cells
                  (upd p1 cell (\<lambda>n. n\<lparr>IsHeader := header, Align := columns ! col\<rparr>))
                  data columns header (i2 + 1) (col + 1)))
      else Inr (p, col))"
  by pat_completeness auto
termination
  by (relation "measure (\<lambda>(p, data, columns, header, i, col). length columns - col)") auto

declare tableRow_cells.simps [simp del]

text \<open>The rest of the row is padded with empty cells.\<close>

function tableRow_pad ::
  "Markdown \<Rightarrow> CellAlignFlags list \<Rightarrow> bool \<Rightarrow> nat \<Rightarrow> error + Markdown" where
  "tableRow_pad p columns header col =
     (if col < length columns
      then bnd (addBlock p TableCell None) (\<lambda>(p1, cell).
             tableRow_pad
               (upd p1 cell (\<lambda>n. n\<lparr>IsHeader := header, Align := columns ! col\<rparr>))
               columns header (col + 1))
      else Inr p)"
  by pat_completeness auto
termination
  by (relation "measure (\<lambda>(p, columns, header, col). length columns - col)") auto

declare tableRow_pad.simps [simp del]

definition tableRow ::
  "Markdown \<Rightarrow> byte list \<Rightarrow> CellAlignFlags list \<Rightarrow> bool \<Rightarrow> error + Markdown" where
  "tableRow p data columns header =
     bnd (addBlock p TableRow None) (\<lambda>(p1, row).
     bnd (at data 0) (\<lambda>c0.
       let i = (if c0 = CHR ''|'' \<and> \<not> isBackslashEscaped data 0 then 1 else 0)
       in bnd (tableRow_cells p1 data columns header i 0) (\<lambda>(p2, col).
            tableRow_pad p2 columns header col)))"

text \<open>
  \<open>tableHeader\<close> returns the size of header and underline, 0 when they are not those
  of a table, and the alignment of the columns.
\<close>

definition tableHeader ::
  "Markdown \<Rightarrow> byte list \<Rightarrow> error + (nat \<times> CellAlignFlags list \<times> Markdown)" where
  "tableHeader p data =
     (case tableHeader_count data 0 1 of (i, colCount) \<Rightarrow>
        if colCount = 1 then Inr (0, [], p)
        else
          let j = (if i < length data \<and> data ! i = NL then i + 1 else i)
          in bnd (slice data 0 j) (\<lambda>header.
             bnd (at data 0) (\<lambda>c0.
               let colCount1 = (if c0 = CHR ''|'' then colCount - 1 else colCount);
                   colCount2 = (if i > 2 \<and> data ! (i - 1) = CHR ''|''
                                   \<and> \<not> isBackslashEscaped data (i - 1)
                                then colCount1 - 1 else colCount1);
                   columns = replicate colCount2 0;
                   i1 = i + 1
               in if i1 \<ge> length data then Inr (0, columns, p)
                  else
                    let i2 = (if data ! i1 = CHR ''|'' \<and> \<not> isBackslashEscaped data i1
                              then i1 + 1 else i1);
                        i3 = skipChar data i2 SP
                    in bnd (tableHeader_loop data colCount2 i3 0 columns)
                         (\<lambda>(ended, i4, col, columns4).
                            if \<not> ended then Inr (0, columns4, p)
                            else if col \<noteq> colCount2 then Inr (0, columns4, p)
                            else
                              bnd (addBlock p TableHead None) (\<lambda>(p1, hd).
                              bnd (tableRow p1 header columns4 True) (\<lambda>p2.
                                let size = (if i4 < length data \<and> data ! i4 = NL
                                            then i4 + 1 else i4)
                                in Inr (size, columns4, p2)))))))"

text \<open>The inner loop of \<open>table\<close>: the end of the line and the number of its pipes.\<close>

function table_pipes :: "byte list \<Rightarrow> nat \<Rightarrow> nat \<Rightarrow> nat \<times> nat" where
  "table_pipes data i pipes =
     (if i < length data \<and> data ! i \<noteq> NL
      then table_pipes data (Suc i) (if data ! i = CHR ''|'' then Suc pipes else pipes)
      else (i, pipes))"
  by pat_completeness auto
termination
  by (relation "measure (\<lambda>(data, i, n). length data - i)") auto

declare table_pipes.simps [simp del]

lemma table_pipes_mono:
  "table_pipes data i n = (j, m) \<Longrightarrow> i \<le> j \<and> n \<le> m \<and> (n < m \<longrightarrow> i < j)"
proof (induction data i n arbitrary: j m rule: table_pipes.induct)
  case (1 data i pipes)
  show ?case
  proof (cases "i < length data \<and> data ! i \<noteq> NL")
    case True
    with 1(2) have
      "table_pipes data (Suc i) (if data ! i = CHR ''|'' then Suc pipes else pipes) = (j, m)"
      by (subst (asm) table_pipes.simps) simp
    from 1(1) [OF True this] show ?thesis by (auto split: if_splits)
  next
    case False
    with 1(2) show ?thesis by (subst (asm) table_pipes.simps) simp
  qed
qed

function table_rows ::
  "Markdown \<Rightarrow> byte list \<Rightarrow> CellAlignFlags list \<Rightarrow> nat \<Rightarrow> error + nat \<times> Markdown" where
  "table_rows p data columns i =
     (if i < length data
      then case table_pipes data i 0 of (i1, pipes) \<Rightarrow>
             if pipes = 0 then Inr (i, p)
             else
               let i2 = (if i1 < length data \<and> data ! i1 = NL then i1 + 1 else i1)
               in bnd (slice data i i2) (\<lambda>row.
                  bnd (tableRow p row columns False) (\<lambda>p1.
                    table_rows p1 data columns i2))
      else Inr (i, p))"
  by pat_completeness auto
termination
proof (relation "measure (\<lambda>(p, data, columns, i). length data - i)", goal_cases)
  case 1
  show ?case by simp
next
  case 2
  then show ?case by (auto dest!: table_pipes_mono [OF sym] split: if_splits)
qed

declare table_rows.simps [simp del]

definition table :: "Markdown \<Rightarrow> byte list \<Rightarrow> error + nat \<times> Markdown" where
  "table p data =
     bnd (addBlock p Table None) (\<lambda>(p1, table).
     bnd (tableHeader p1 data) (\<lambda>(i, columns, p2).
       if i = 0
       then bnd (deref p2 (Some table)) (\<lambda>t.
              Inr (0, Unlink (p2\<lparr>tip := Parent t\<rparr>) table))
       else bnd (addBlock p2 TableBody None) (\<lambda>(p3, body).
              table_rows p3 data columns i)))"

section \<open>Block quotes\<close>

lemma lineEnd_ge: "i \<le> lineEnd data i"
proof (induction data i rule: lineEnd.induct)
  case (1 data i)
  show ?case
  proof (cases "i < length data \<and> data ! i \<noteq> NL")
    case True
    with 1 have "Suc i \<le> lineEnd data (Suc i)" by simp
    with True show ?thesis by (subst lineEnd.simps) simp
  next
    case False
    then show ?thesis by (subst lineEnd.simps) auto
  qed
qed

lemma lineEnd_le: "i \<le> length data \<Longrightarrow> lineEnd data i \<le> length data"
proof (induction data i rule: lineEnd.induct)
  case (1 data i)
  show ?case
  proof (cases "i < length data \<and> data ! i \<noteq> NL")
    case True
    with 1 have "lineEnd data (Suc i) \<le> length data" by simp
    with True show ?thesis by (subst lineEnd.simps) simp
  next
    case False
    with 1(2) show ?thesis by (subst lineEnd.simps) auto
  qed
qed

text \<open>
  The end of the line that starts at \<open>i\<close>, its newline included: the loop
  \<open>for end < len(data) && data[end] != '\n'\<close> and the step over the newline.
\<close>

definition lineAfter :: "byte list \<Rightarrow> nat \<Rightarrow> nat" where
  "lineAfter data i =
     (let e = lineEnd data i in if e < length data \<and> data ! e = NL then e + 1 else e)"

lemma lineAfter_gt: "i < length data \<Longrightarrow> i < lineAfter data i"
proof -
  assume a: "i < length data"
  show ?thesis
  proof (cases "data ! i = NL")
    case True
    with a have "lineEnd data i = i" by (subst lineEnd.simps) simp
    with a True show ?thesis by (simp add: lineAfter_def)
  next
    case False
    with a have "lineEnd data i = lineEnd data (Suc i)" by (subst lineEnd.simps) simp
    moreover have "Suc i \<le> lineEnd data (Suc i)" by (rule lineEnd_ge)
    ultimately show ?thesis by (simp add: lineAfter_def Let_def)
  qed
qed

lemma lineAfter_le: "i \<le> length data \<Longrightarrow> lineAfter data i \<le> length data"
  using lineEnd_le [of i data] by (auto simp: lineAfter_def Let_def)

definition terminateBlockquote :: "byte list \<Rightarrow> nat \<Rightarrow> nat \<Rightarrow> bool" where
  "terminateBlockquote data beg e =
     (if isEmpty (drop beg data) \<le> 0 then False
      else if e \<ge> length data then True
      else quotePrefix (drop e data) = 0 \<and> isEmpty (drop e data) = 0)"

text \<open>
  The loop of \<open>quote\<close> gathers the lines of the quote, without their prefixes, in
  \<open>raw\<close>; it returns the end of the last line it looked at and \<open>raw\<close>.
\<close>

function quote_gather ::
  "byte list \<Rightarrow> nat \<Rightarrow> nat \<Rightarrow> byte list \<Rightarrow> error + nat \<times> byte list" where
  "quote_gather data beg e raw =
     (if beg < length data
      then let e1 = lineAfter data beg;
               pre = quotePrefix (drop beg data)
           in if pre > 0
              then bnd (slice data (beg + pre) e1) (\<lambda>l. quote_gather data e1 e1 (raw @ l))
              else if terminateBlockquote data beg e1 then Inr (e1, raw)
              else bnd (slice data beg e1) (\<lambda>l. quote_gather data e1 e1 (raw @ l))
      else Inr (e, raw))"
  by pat_completeness auto
termination
  by (relation "measure (\<lambda>(data, beg, e, raw). length data - beg)")
    (auto dest: lineAfter_gt intro: diff_less_mono2)

declare quote_gather.simps [simp del]

section \<open>Lists\<close>

text \<open>
  \<open>endsWithBlankLine\<close> descends along the last children of lists and items and
  returns false. The descent does not change the tree, so it ends within as many steps
  as there are nodes or runs for ever; the counter is as in \<open>addExistingChild_loop\<close>.
\<close>

fun endsWithBlankLine_loop :: "nat \<Rightarrow> Markdown \<Rightarrow> nat option \<Rightarrow> error + bool" where
  "endsWithBlankLine_loop 0 p block = Inl OutOfFuel"
| "endsWithBlankLine_loop (Suc k) p block =
     (case block of
        None \<Rightarrow> Inr False
      | Some b \<Rightarrow>
          bnd (deref p block) (\<lambda>n.
            if Type n = List \<or> Type n = Item
            then endsWithBlankLine_loop k p (LastChild p b)
            else Inr False))"

definition endsWithBlankLine :: "Markdown \<Rightarrow> nat option \<Rightarrow> error + bool" where
  "endsWithBlankLine p block = endsWithBlankLine_loop (Suc (length (nodes p))) p block"

text \<open>
  The loops of \<open>finalizeList\<close> over the items of the list and over the children of an
  item follow \<open>FirstChild\<close> and \<open>Next\<close>, that is the child list in its order;
  \<open>hasNext\<close> is \<open>item.Next != nil\<close>.
\<close>

fun finalizeList_subItems ::
  "Markdown \<Rightarrow> nat \<Rightarrow> bool \<Rightarrow> nat list \<Rightarrow> error + Markdown" where
  "finalizeList_subItems p block hasNext [] = Inr p"
| "finalizeList_subItems p block hasNext (subItem # rest) =
     bnd (endsWithBlankLine p (Some subItem)) (\<lambda>b.
       if b \<and> (hasNext \<or> rest \<noteq> [])
       then Inr (upd p block (\<lambda>n. n\<lparr>Tight := False\<rparr>))
       else finalizeList_subItems p block hasNext rest)"

fun finalizeList_items :: "Markdown \<Rightarrow> nat \<Rightarrow> nat list \<Rightarrow> error + Markdown" where
  "finalizeList_items p block [] = Inr p"
| "finalizeList_items p block (item # rest) =
     bnd (endsWithBlankLine p (Some item)) (\<lambda>b.
       if b \<and> rest \<noteq> []
       then Inr (upd p block (\<lambda>n. n\<lparr>Tight := False\<rparr>))
       else bnd (deref p (Some item)) (\<lambda>it.
            bnd (finalizeList_subItems p block (rest \<noteq> []) (children it)) (\<lambda>p1.
              finalizeList_items p1 block rest)))"

definition finalizeList :: "Markdown \<Rightarrow> nat \<Rightarrow> error + Markdown" where
  "finalizeList p block =
     bnd (deref p (Some block)) (\<lambda>b.
       finalizeList_items (upd p block (\<lambda>n. n\<lparr>is_open := False\<rparr>)) block (children b))"

text \<open>The loops of \<open>listItem\<close>.\<close>

function listItem_indent :: "byte list \<Rightarrow> nat \<Rightarrow> error + nat" where
  "listItem_indent data itemIndent =
     (if itemIndent < 3
      then if itemIndent < length data
           then if data ! itemIndent = SP then listItem_indent data (Suc itemIndent)
                else Inr itemIndent
           else Inl IndexOutOfRange
      else Inr itemIndent)"
  by pat_completeness auto
termination
  by (relation "measure (\<lambda>(data, i). 3 - i)") auto

declare listItem_indent.simps [simp del]

text \<open>\<open>for i > 0 && i < len(data) && data[i-1] != '\n'\<close>\<close>

function listItem_eol :: "byte list \<Rightarrow> nat \<Rightarrow> nat" where
  "listItem_eol data i =
     (if i > 0 \<and> i < length data \<and> data ! (i - 1) \<noteq> NL then listItem_eol data (Suc i) else i)"
  by pat_completeness auto
termination
  by (relation "measure (\<lambda>(data, i). length data - i)") auto

declare listItem_eol.simps [simp del]

lemma listItem_eol_ge: "i \<le> listItem_eol data i"
proof (induction data i rule: listItem_eol.induct)
  case (1 data i)
  show ?case
  proof (cases "i > 0 \<and> i < length data \<and> data ! (i - 1) \<noteq> NL")
    case True
    with 1 have "Suc i \<le> listItem_eol data (Suc i)" by simp
    with True show ?thesis by (subst listItem_eol.simps) simp
  next
    case False
    then show ?thesis by (subst listItem_eol.simps) auto
  qed
qed

text \<open>\<open>for indent < 4 && line+indent < i && data[line+indent] == ' '\<close>\<close>

function listItem_lineIndent :: "byte list \<Rightarrow> nat \<Rightarrow> nat \<Rightarrow> nat \<Rightarrow> error + nat" where
  "listItem_lineIndent data line i indent =
     (if indent < 4 \<and> line + indent < i
      then if line + indent < length data
           then if data ! (line + indent) = SP
                then listItem_lineIndent data line i (Suc indent)
                else Inr indent
           else Inl IndexOutOfRange
      else Inr indent)"
  by pat_completeness auto
termination
  by (relation "measure (\<lambda>(data, line, i, indent). 4 - indent)") auto

declare listItem_lineIndent.simps [simp del]

text \<open>\<open>for next < len(data)-1 && data[next] == '\n'\<close>\<close>

function listItem_newlines :: "byte list \<Rightarrow> nat \<Rightarrow> nat" where
  "listItem_newlines data next =
     (if next < length data - 1 \<and> data ! next = NL
      then listItem_newlines data (Suc next) else next)"
  by pat_completeness auto
termination
  by (relation "measure (\<lambda>(data, next). length data - next)") auto

declare listItem_newlines.simps [simp del]

text \<open>
  A line that follows a blank line with an indent below 4 ends the item; in a
  definition list the flags say whether it ends the list as well.
\<close>

definition listItem_afterBlank :: "byte list \<Rightarrow> nat \<Rightarrow> ListType \<Rightarrow> error + ListType" where
  "listItem_afterBlank data i flags =
     (if flags AND ListTypeDefinition \<noteq> 0 \<and> i < length data - 1
      then let next = listItem_newlines data (lineEnd data i)
           in if i < length data - 1 \<and> data ! i \<noteq> CHR '':''
              then bnd (at data next) (\<lambda>c.
                     Inr (if c \<noteq> CHR '':'' then flags OR ListItemEndOfList else flags))
              else Inr flags
      else Inr (flags OR ListItemEndOfList))"

text \<open>
  The loop \<open>gatherlines\<close>. At its head \<open>i\<close> equals \<open>line\<close>, since \<open>line = i\<close> is the last
  assignment before each way back to it; so the loop is a function of \<open>line\<close>. It
  returns \<open>line\<close>, \<open>raw\<close>, \<open>sublist\<close> and the flags.
\<close>

function listItem_gather ::
  "byte list \<Rightarrow> nat \<Rightarrow> nat \<Rightarrow> byte list \<Rightarrow> bool \<Rightarrow> nat \<Rightarrow> ListType
     \<Rightarrow> error + (nat \<times> byte list \<times> nat \<times> ListType)" where
  "listItem_gather data itemIndent line raw containsBlankLine sublist flags =
     (if line < length data
      then
        let i = listItem_eol data (Suc line)
        in bnd (slice data line i) (\<lambda>l.
           if isEmpty l > 0
           then listItem_gather data itemIndent i raw True sublist flags
           else
             bnd (if data ! line = TAB then Inr (4, 1)
                  else bnd (listItem_lineIndent data line i 0) (\<lambda>k. Inr (k, k)))
               (\<lambda>(indent, indentIndex).
             bnd (slice data (line + indentIndex) i) (\<lambda>chunk.
             bnd (if uliPrefix chunk > 0 then bnd (isHRule chunk) (\<lambda>h. Inr (\<not> h))
                  else Inr False) (\<lambda>u.
               if u \<or> oliPrefix chunk > 0 \<or> dliPrefix chunk > 0
               then
                 if indent \<le> itemIndent
                 then Inr (line, raw, sublist,
                        if listTypeChanged chunk flags then flags OR ListItemEndOfList
                        else if containsBlankLine then flags OR ListItemContainsBlock
                        else flags)
                 else
                   listItem_gather data itemIndent i
                     ((if containsBlankLine then raw @ [NL] else raw) @ chunk)
                     False
                     (if sublist = 0 then length raw else sublist)
                     (if containsBlankLine then flags OR ListItemContainsBlock else flags)
               else if containsBlankLine \<and> indent < 4
               then bnd (listItem_afterBlank data i flags) (\<lambda>flags1.
                      Inr (line, raw, sublist, flags1))
               else if containsBlankLine
               then listItem_gather data itemIndent i
                      (raw @ [NL] @ [NL] @ chunk) False sublist
                      (flags OR ListItemContainsBlock)
               else listItem_gather data itemIndent i (raw @ chunk) False sublist flags))))
      else Inr (line, raw, sublist, flags))"
  by pat_completeness auto
termination
proof (relation "measure (\<lambda>(data, itemIndent, line, raw, c, sublist, flags). length data - line)",
    goal_cases)
  case 1
  show ?case by simp
next
  case 2
  then show ?case using listItem_eol_ge [of "Suc _"] by (auto simp: Suc_le_eq intro: diff_less_mono2)
next
  case 3
  then show ?case using listItem_eol_ge [of "Suc _"] by (auto simp: Suc_le_eq intro: diff_less_mono2)
next
  case 4
  then show ?case using listItem_eol_ge [of "Suc _"] by (auto simp: Suc_le_eq intro: diff_less_mono2)
next
  case 5
  then show ?case using listItem_eol_ge [of "Suc _"] by (auto simp: Suc_le_eq intro: diff_less_mono2)
qed

declare listItem_gather.simps [simp del]

section \<open>Paragraphs\<close>

fun indexByte :: "byte list \<Rightarrow> byte \<Rightarrow> nat option" where
  "indexByte [] c = None"
| "indexByte (x # xs) c =
     (if x = c then Some 0 else case indexByte xs c of None \<Rightarrow> None | Some k \<Rightarrow> Some (Suc k))"

text \<open>The loops of \<open>renderParagraph\<close>; the first reads \<open>data[beg]\<close> with no test.\<close>

function renderParagraph_beg :: "byte list \<Rightarrow> nat \<Rightarrow> error + nat" where
  "renderParagraph_beg data beg =
     (if beg < length data
      then if data ! beg = SP then renderParagraph_beg data (Suc beg) else Inr beg
      else Inl IndexOutOfRange)"
  by pat_completeness auto
termination
  by (relation "measure (\<lambda>(data, beg). length data - beg)") auto

declare renderParagraph_beg.simps [simp del]

function renderParagraph_trim :: "byte list \<Rightarrow> nat \<Rightarrow> nat \<Rightarrow> nat" where
  "renderParagraph_trim data beg e =
     (if e > beg \<and> data ! (e - 1) = SP then renderParagraph_trim data beg (e - 1) else e)"
  by pat_completeness auto
termination
  by (relation "measure (\<lambda>(data, beg, e). e)") auto

declare renderParagraph_trim.simps [simp del]

definition renderParagraph :: "Markdown \<Rightarrow> byte list \<Rightarrow> error + Markdown" where
  "renderParagraph p data =
     (if length data = 0 then Inr p
      else
        bnd (renderParagraph_beg data 0) (\<lambda>beg.
          let e = (if data ! (length data - 1) = NL then length data - 1 else length data);
              e1 = renderParagraph_trim data beg e
          in bnd (slice data beg e1) (\<lambda>c.
             bnd (addBlock p Paragraph (Some c)) (\<lambda>(p1, para). Inr p1))))"

text \<open>
  The loop of \<open>paragraph\<close> changes nothing before it returns, so it is a scan that
  tells how the paragraph ends: \<open>ParaList prev\<close> when the lines from \<open>prev\<close> on are
  handed to \<open>list\<close> as a definition list, \<open>ParaRender i r\<close> when \<open>data[:i]\<close> is rendered
  and \<open>r\<close> returned.
\<close>

datatype para = ParaList nat | ParaRender nat nat

definition paragraph_next :: "byte list \<Rightarrow> nat \<Rightarrow> nat" where
  "paragraph_next data i =
     (case indexByte (drop i data) NL of
        Some nl \<Rightarrow> i + (nl + 1)
      | None \<Rightarrow> i + length (drop i data))"

lemma paragraph_next_gt: "i < length data \<Longrightarrow> i < paragraph_next data i"
  by (simp add: paragraph_next_def split: option.splits)

function paragraph_scan :: "Extensions \<Rightarrow> byte list \<Rightarrow> nat \<Rightarrow> nat \<Rightarrow> error + para" where
  "paragraph_scan ext data line i =
     (if i < length data
      then
        let prev = line;
            current = drop i data;
            n = isEmpty current
        in if n > 0
           then if ext AND DefinitionLists \<noteq> 0 \<and> i < length data - 1
                   \<and> data ! (i + 1) = CHR '':''
                then Inr (ParaList prev)
                else Inr (ParaRender i (i + n))
           else
             bnd (isHRule current) (\<lambda>h.
               if h then Inr (ParaRender i i)
               else if ext AND DefinitionLists \<noteq> 0 \<and> dliPrefix current \<noteq> 0
               then Inr (ParaList prev)
               else if ext AND NoEmptyLineBeforeBlock \<noteq> 0
                       \<and> (uliPrefix current \<noteq> 0 \<or> oliPrefix current \<noteq> 0
                            \<or> quotePrefix current \<noteq> 0)
               then Inr (ParaRender i i)
               else paragraph_scan ext data i (paragraph_next data i))
      else Inr (ParaRender i i))"
  by pat_completeness auto
termination
  by (relation "measure (\<lambda>(ext, data, line, i). length data - i)")
    (auto dest: paragraph_next_gt intro: diff_less_mono2)

declare paragraph_scan.simps [simp del]

section \<open>The block parsers\<close>

text \<open>
  \<open>block\<close>, \<open>quote\<close>, \<open>list\<close>, \<open>listItem\<close> and \<open>paragraph\<close> call each other, and the
  loop of \<open>block\<close> goes on for as long as the parsers it calls leave it input. Each body
  is written first with the functions it calls as parameters; the functions themselves
  are then defined by recursion on the fuel: each call and each turn of a loop takes one
  unit, and a computation that has none left is \<open>Inl OutOfFuel\<close>. The parsers return the
  number of bytes they consumed and the processor; \<open>listItem\<close> returns the flags as
  well, which it receives by reference. (\<open>paragraph\<close> is \<open>paragraph_blk\<close> here.)
\<close>

type_synonym blockT = "Markdown \<Rightarrow> byte list \<Rightarrow> error + Markdown"
type_synonym quoteT = "Markdown \<Rightarrow> byte list \<Rightarrow> error + nat \<times> Markdown"
type_synonym listT = "Markdown \<Rightarrow> byte list \<Rightarrow> ListType \<Rightarrow> error + nat \<times> Markdown"
type_synonym list_loopT =
  "Markdown \<Rightarrow> byte list \<Rightarrow> nat \<Rightarrow> ListType \<Rightarrow> nat \<Rightarrow> error + nat \<times> ListType \<times> Markdown"
type_synonym listItemT =
  "Markdown \<Rightarrow> byte list \<Rightarrow> ListType \<Rightarrow> error + nat \<times> ListType \<times> Markdown"

definition block_body :: "blockT \<Rightarrow> blockT" where
  "block_body block_loop p data =
     (if nesting p \<ge> maxNesting p then Inr p
      else bnd (block_loop (p\<lparr>nesting := nesting p + 1\<rparr>) data) (\<lambda>p1.
             Inr (p1\<lparr>nesting := nesting p1 - 1\<rparr>)))"

definition block_loop_body :: "blockT \<Rightarrow> quoteT \<Rightarrow> listT \<Rightarrow> quoteT \<Rightarrow> blockT" where
  "block_loop_body block_loop quote list paragraph p data =
     (if length data > 0
      then
        if isEmpty data > 0
        then bnd (sliceFrom data (isEmpty data)) (\<lambda>rest. block_loop p rest)
        else
          bnd (isHRule data) (\<lambda>h.
            if h
            then bnd (addBlock p HorizontalRule None) (\<lambda>(p1, hr).
                 bnd (sliceFrom data (lineEnd data 0)) (\<lambda>rest. block_loop p1 rest))
            else if quotePrefix data > 0
            then bnd (quote p data) (\<lambda>(k, p1).
                 bnd (sliceFrom data k) (\<lambda>rest. block_loop p1 rest))
            else
              bnd (if extensions p AND Tables \<noteq> 0 then table p data else Inr (0, p))
                (\<lambda>(i, p1).
                  if i > 0
                  then bnd (sliceFrom data i) (\<lambda>rest. block_loop p1 rest)
                  else if uliPrefix data > 0
                  then bnd (list p1 data 0) (\<lambda>(k, p2).
                       bnd (sliceFrom data k) (\<lambda>rest. block_loop p2 rest))
                  else if oliPrefix data > 0
                  then bnd (list p1 data ListTypeOrdered) (\<lambda>(k, p2).
                       bnd (sliceFrom data k) (\<lambda>rest. block_loop p2 rest))
                  else if extensions p1 AND DefinitionLists \<noteq> 0 \<and> dliPrefix data > 0
                  then bnd (list p1 data ListTypeDefinition) (\<lambda>(k, p2).
                       bnd (sliceFrom data k) (\<lambda>rest. block_loop p2 rest))
                  else bnd (paragraph p1 data) (\<lambda>(k, p2).
                       bnd (sliceFrom data k) (\<lambda>rest. block_loop p2 rest))))
      else Inr p)"

definition quote_body :: "blockT \<Rightarrow> quoteT" where
  "quote_body block p data =
     bnd (addBlock p BlockQuote None) (\<lambda>(p1, blk).
     bnd (quote_gather data 0 0 []) (\<lambda>(e, raw).
     bnd (block p1 raw) (\<lambda>p2.
     bnd (finalize p2 (Some blk)) (\<lambda>p3.
       Inr (e, p3)))))"

definition list_body :: "list_loopT \<Rightarrow> listT" where
  "list_body list_loop p data flags =
     (let flags1 = flags OR ListItemBeginningOfList
      in bnd (addBlock p List None) (\<lambda>(p1, blk).
         bnd (list_loop (upd p1 blk (\<lambda>nd. nd\<lparr>ListFlags := flags1, Tight := True\<rparr>))
                data blk flags1 0) (\<lambda>(i, flags2, p2).
         bnd (deref p2 (Some blk)) (\<lambda>b.
           let above = Parent b
           in bnd (finalizeList p2 blk) (\<lambda>p3.
                Inr (i, p3\<lparr>tip := above\<rparr>))))))"

definition list_loop_body :: "listItemT \<Rightarrow> list_loopT \<Rightarrow> list_loopT" where
  "list_loop_body listItem list_loop p data blk flags i =
     (if i < length data
      then bnd (sliceFrom data i) (\<lambda>rest.
           bnd (listItem p rest flags) (\<lambda>(skip, flags1, p1).
             let p2 = (if flags1 AND ListItemContainsBlock \<noteq> 0
                       then upd p1 blk (\<lambda>nd. nd\<lparr>Tight := False\<rparr>) else p1);
                 i1 = i + skip
             in if skip = 0 \<or> flags1 AND ListItemEndOfList \<noteq> 0
                then Inr (i1, flags1, p2)
                else list_loop p2 data blk (flags1 AND NOT ListItemBeginningOfList) i1))
      else Inr (i, flags, p))"

definition listItem_body :: "blockT \<Rightarrow> listItemT" where
  "listItem_body block p data flags =
     bnd (at data 0) (\<lambda>c0.
     bnd (if c0 = TAB then Inr 4 else listItem_indent data 0) (\<lambda>itemIndent.
     bnd (if uliPrefix data = 0 then Inr (oliPrefix data, CHR ''*'')
          else bnd (at data (uliPrefix data - 2)) (\<lambda>b. Inr (uliPrefix data, b)))
       (\<lambda>(i0, bulletChar).
       let i1 = (if i0 = 0 then dliPrefix data else i0);
           flags1 = (if i0 = 0 \<and> i1 > 0 then flags AND NOT ListTypeTerm else flags)
       in if i1 = 0 \<and> flags1 AND ListTypeDefinition = 0 then Inr (0, flags1, p)
          else
            let flags2 = (if i1 = 0 then flags1 OR ListTypeTerm else flags1);
                i2 = skipChar data i1 SP;
                i3 = listItem_eol data i2
            in bnd (slice data i2 i3) (\<lambda>first.
               bnd (listItem_gather data itemIndent i3 first False 0 flags2)
                 (\<lambda>(line, rawBytes, sublist, flags3).
               bnd (addBlock p Item None) (\<lambda>(p1, blk).
                 let p2 = upd p1 blk (\<lambda>nd. nd\<lparr>ListFlags := flags3, Tight := False,
                            BulletChar := bulletChar, Delimiter := CHR ''.''\<rparr>)
                 in if flags3 AND ListItemContainsBlock \<noteq> 0 \<and> flags3 AND ListTypeTerm = 0
                    then
                      if sublist > 0
                      then bnd (block p2 (take sublist rawBytes)) (\<lambda>p3.
                           bnd (block p3 (drop sublist rawBytes)) (\<lambda>p4.
                             Inr (line, flags3, p4)))
                      else bnd (block p2 rawBytes) (\<lambda>p3. Inr (line, flags3, p3))
                    else
                      if sublist > 0
                      then bnd (addChild p2 Paragraph) (\<lambda>(p3, child).
                           bnd (block
                                  (upd p3 child
                                     (\<lambda>nd. nd\<lparr>content := Some (take sublist rawBytes)\<rparr>))
                                  (drop sublist rawBytes)) (\<lambda>p4.
                             Inr (line, flags3, p4)))
                      else bnd (addChild p2 Paragraph) (\<lambda>(p3, child).
                             Inr (line, flags3,
                                  upd p3 child
                                    (\<lambda>nd. nd\<lparr>content :=
                                       (if rawBytes = [] then None else Some rawBytes)\<rparr>)))))))))"

definition paragraph_body :: "listT \<Rightarrow> quoteT" where
  "paragraph_body list p data =
     bnd (paragraph_scan (extensions p) data 0 0) (\<lambda>r.
       case r of
         ParaList prev \<Rightarrow>
           bnd (sliceFrom data prev) (\<lambda>rest. list p rest ListTypeDefinition)
       | ParaRender i ret \<Rightarrow>
           bnd (slice data 0 i) (\<lambda>d.
           bnd (renderParagraph p d) (\<lambda>p1. Inr (ret, p1))))"

text \<open>The seven functions at a given fuel.\<close>

record parsers =
  p_block :: blockT
  p_block_loop :: blockT
  p_quote :: quoteT
  p_list :: listT
  p_list_loop :: list_loopT
  p_listItem :: listItemT
  p_paragraph :: quoteT

primrec parsers_at :: "nat \<Rightarrow> parsers" where
  "parsers_at 0 =
     \<lparr>p_block = (\<lambda>p data. Inl OutOfFuel),
      p_block_loop = (\<lambda>p data. Inl OutOfFuel),
      p_quote = (\<lambda>p data. Inl OutOfFuel),
      p_list = (\<lambda>p data flags. Inl OutOfFuel),
      p_list_loop = (\<lambda>p data blk flags i. Inl OutOfFuel),
      p_listItem = (\<lambda>p data flags. Inl OutOfFuel),
      p_paragraph = (\<lambda>p data. Inl OutOfFuel)\<rparr>"
| "parsers_at (Suc n) =
     \<lparr>p_block = block_body (p_block_loop (parsers_at n)),
      p_block_loop =
        block_loop_body (p_block_loop (parsers_at n)) (p_quote (parsers_at n))
          (p_list (parsers_at n)) (p_paragraph (parsers_at n)),
      p_quote = quote_body (p_block (parsers_at n)),
      p_list = list_body (p_list_loop (parsers_at n)),
      p_list_loop = list_loop_body (p_listItem (parsers_at n)) (p_list_loop (parsers_at n)),
      p_listItem = listItem_body (p_block (parsers_at n)),
      p_paragraph = paragraph_body (p_list (parsers_at n))\<rparr>"

definition block :: "nat \<Rightarrow> blockT" where
  "block n = p_block (parsers_at n)"

definition block_loop :: "nat \<Rightarrow> blockT" where
  "block_loop n = p_block_loop (parsers_at n)"

definition quote :: "nat \<Rightarrow> quoteT" where
  "quote n = p_quote (parsers_at n)"

definition list :: "nat \<Rightarrow> listT" where
  "list n = p_list (parsers_at n)"

definition list_loop :: "nat \<Rightarrow> list_loopT" where
  "list_loop n = p_list_loop (parsers_at n)"

definition listItem :: "nat \<Rightarrow> listItemT" where
  "listItem n = p_listItem (parsers_at n)"

definition paragraph_blk :: "nat \<Rightarrow> quoteT" where
  "paragraph_blk n = p_paragraph (parsers_at n)"

lemmas parser_defs =
  block_def block_loop_def quote_def list_def list_loop_def listItem_def paragraph_blk_def

text \<open>The equations of the seven functions.\<close>

lemma block_0 [code]: "block 0 p data = Inl OutOfFuel"
  by (simp add: parser_defs)

lemma block_Suc [code]: "block (Suc n) p data = block_body (block_loop n) p data"
  by (simp add: parser_defs)

lemma block_loop_0 [code]: "block_loop 0 p data = Inl OutOfFuel"
  by (simp add: parser_defs)

lemma block_loop_Suc [code]:
  "block_loop (Suc n) p data =
     block_loop_body (block_loop n) (quote n) (list n) (paragraph_blk n) p data"
  by (simp add: parser_defs)

lemma quote_0 [code]: "quote 0 p data = Inl OutOfFuel"
  by (simp add: parser_defs)

lemma quote_Suc [code]: "quote (Suc n) p data = quote_body (block n) p data"
  by (simp add: parser_defs)

lemma list_0 [code]: "list 0 p data flags = Inl OutOfFuel"
  by (simp add: parser_defs)

lemma list_Suc [code]: "list (Suc n) p data flags = list_body (list_loop n) p data flags"
  by (simp add: parser_defs)

lemma list_loop_0 [code]: "list_loop 0 p data blk flags i = Inl OutOfFuel"
  by (simp add: parser_defs)

lemma list_loop_Suc [code]:
  "list_loop (Suc n) p data blk flags i =
     list_loop_body (listItem n) (list_loop n) p data blk flags i"
  by (simp add: parser_defs)

lemma listItem_0 [code]: "listItem 0 p data flags = Inl OutOfFuel"
  by (simp add: parser_defs)

lemma listItem_Suc [code]:
  "listItem (Suc n) p data flags = listItem_body (block n) p data flags"
  by (simp add: parser_defs)

lemma paragraph_blk_0 [code]: "paragraph_blk 0 p data = Inl OutOfFuel"
  by (simp add: parser_defs)

lemma paragraph_blk_Suc [code]:
  "paragraph_blk (Suc n) p data = paragraph_body (list n) p data"
  by (simp add: parser_defs)

section \<open>The two-phase driver\<close>

definition New :: "Extensions \<Rightarrow> (byte list \<Rightarrow> (nat \<times> byte list) list) \<Rightarrow> Markdown" where
  "New exts inl =
     \<lparr>inlineEngine = inl, extensions = exts, nesting = 0, maxNesting = 16,
      insideLink = False, doc = Some 0, tip = Some 0, oldTip = Some 0,
      lastMatchedContainer = Some 0, allClosed = True, nodes = [NewNode Document]\<rparr>"

text \<open>
  Modelled from the spec: the inline engine is not in the sources. Called on a node
  and its raw content it gives the node the inline children it produces; these are new
  nodes of inline kinds.
\<close>

fun inline_append :: "Markdown \<Rightarrow> nat \<Rightarrow> (nat \<times> byte list) list \<Rightarrow> Markdown" where
  "inline_append p node [] = p"
| "inline_append p node ((k, lit) # rest) =
     (case alloc p ((NewNode (Inline k))\<lparr>content := Some lit, Parent := Some node\<rparr>) of
        (p1, c) \<Rightarrow>
          inline_append (upd p1 node (\<lambda>n. n\<lparr>children := children n @ [c]\<rparr>)) node rest)"

definition inline :: "Markdown \<Rightarrow> nat \<Rightarrow> byte list option \<Rightarrow> Markdown" where
  "inline p node data =
     inline_append p node (inlineEngine p (case data of None \<Rightarrow> [] | Some d \<Rightarrow> d))"

text \<open>
  Modelled from the spec: \<open>Walk\<close> is not in the sources. It visits every node of the
  tree under the root twice, once entering, before its children, and once leaving, after
  them. The first argument is the fuel of the descent.
\<close>

fun Walk ::
  "nat \<Rightarrow> (Markdown \<Rightarrow> nat \<Rightarrow> bool \<Rightarrow> error + Markdown) \<Rightarrow> Markdown \<Rightarrow> nat
     \<Rightarrow> error + Markdown"
  and Walk_children ::
  "nat \<Rightarrow> (Markdown \<Rightarrow> nat \<Rightarrow> bool \<Rightarrow> error + Markdown) \<Rightarrow> Markdown \<Rightarrow> nat list
     \<Rightarrow> error + Markdown"
where
  "Walk 0 visitor p a = Inl OutOfFuel"
| "Walk (Suc n) visitor p a =
     bnd (visitor p a True) (\<lambda>p1.
     bnd (deref p1 (Some a)) (\<lambda>nd.
     bnd (Walk_children n visitor p1 (children nd)) (\<lambda>p2.
       visitor p2 a False)))"
| "Walk_children n visitor p [] = Inr p"
| "Walk_children n visitor p (c # cs) =
     bnd (Walk n visitor p c) (\<lambda>p1. Walk_children n visitor p1 cs)"

text \<open>The function that \<open>Parse\<close> hands to \<open>Walk\<close>.\<close>

definition Parse_visitor :: "Markdown \<Rightarrow> nat \<Rightarrow> bool \<Rightarrow> error + Markdown" where
  "Parse_visitor p node entering =
     bnd (deref p (Some node)) (\<lambda>nd.
       if Type nd = Paragraph \<or> Type nd = TableCell
       then Inr (upd (inline p node (content nd)) node (\<lambda>n. n\<lparr>content := None\<rparr>))
       else Inr p)"

text \<open>
  The loop \<open>for p.tip != nil\<close> of \<open>Parse\<close> follows the parent links from the tip; its
  counter is as in \<open>addExistingChild_loop\<close>.
\<close>

fun Parse_finalize :: "nat \<Rightarrow> Markdown \<Rightarrow> error + Markdown" where
  "Parse_finalize 0 p = Inl OutOfFuel"
| "Parse_finalize (Suc k) p =
     (if tip p \<noteq> None then bnd (finalize p (tip p)) (\<lambda>p1. Parse_finalize k p1) else Inr p)"

definition Parse :: "nat \<Rightarrow> Markdown \<Rightarrow> byte list \<Rightarrow> error + Markdown" where
  "Parse n p input =
     bnd (block n p input) (\<lambda>p1.
     bnd (Parse_finalize (Suc (length (nodes p1))) p1) (\<lambda>p2.
     bnd (case doc p2 of None \<Rightarrow> Inl NilPointer | Some d \<Rightarrow> Inr d) (\<lambda>d.
       Walk n Parse_visitor p2 d)))"

section \<open>Observations\<close>

text \<open>
  A stand-in for the inline engine in the examples: the raw content becomes one text
  node. The block structure of the tree does not depend on it.
\<close>

definition plainText :: "byte list \<Rightarrow> (nat \<times> byte list) list" where
  "plainText d = (if d = [] then [] else [(0, d)])"

text \<open>
  The tree under the document root, read from the arena, with \<open>f\<close> of each node. The
  depth of the reading is bounded by the number of the nodes.
\<close>

datatype 'a rose = Rose 'a "'a rose list"

fun view :: "(Node \<Rightarrow> 'a) \<Rightarrow> nat \<Rightarrow> Markdown \<Rightarrow> nat \<Rightarrow> 'a rose" where
  "view f 0 p a = Rose (f (nodes p ! a)) []"
| "view f (Suc k) p a = Rose (f (nodes p ! a)) (map (view f k p) (children (nodes p ! a)))"

definition docTree :: "(Node \<Rightarrow> 'a) \<Rightarrow> Markdown \<Rightarrow> 'a rose" where
  "docTree f p = view f (length (nodes p)) p (the (doc p))"

definition Type_open :: "Node \<Rightarrow> NodeType \<times> bool" where
  "Type_open n = (Type n, is_open n)"

definition Type_Tight :: "Node \<Rightarrow> NodeType \<times> bool" where
  "Type_Tight n = (Type n, Tight n)"

definition Type_content :: "Node \<Rightarrow> NodeType \<times> byte list option" where
  "Type_content n = (Type n, content n)"

definition Type_Align :: "Node \<Rightarrow> NodeType \<times> CellAlignFlags" where
  "Type_Align n = (Type n, Align n)"

section \<open>List tightness\<close>

lemma tight_list_tree:
  "map_sum id (docTree Type_Tight)
     (Parse 40 (New MfnStandardExtensions plainText) ''* a\<newline>* b\<newline>'')
   = Inr (Rose (Document, False)
            [Rose (List, True)
               [Rose (Item, False) [Rose (Paragraph, False) [Rose (Inline 0, False) []]],
                Rose (Item, False) [Rose (Paragraph, False) [Rose (Inline 0, False) []]]]])"
  by code_simp

lemma loose_list_tree:
  "map_sum id (docTree Type_Tight)
     (Parse 40 (New MfnStandardExtensions plainText) ''* a\<newline>\<newline>* b\<newline>'')
   = Inr (Rose (Document, False)
            [Rose (List, False)
               [Rose (Item, False) [Rose (Paragraph, False) [Rose (Inline 0, False) []]],
                Rose (Item, False) [Rose (Paragraph, False) [Rose (Inline 0, False) []]]]])"
  by code_simp

text \<open>
  C8. Parsing \<open>* a\n* b\n\<close>, with no blank line between the items, gives a document
  whose only child is a List node with \<open>Tight\<close> true; parsing \<open>* a\n\n* b\n\<close>, with a
  blank line between the items, gives a List node with \<open>Tight\<close> false. (The second
  component of each node is its \<open>Tight\<close> field.)
\<close>

theorem C8_list_tightness:
  "(\<exists>items.
      map_sum id (docTree Type_Tight)
        (Parse 40 (New MfnStandardExtensions plainText) ''* a\<newline>* b\<newline>'')
      = Inr (Rose (Document, False) [Rose (List, True) items]))
   \<and> (\<exists>items.
      map_sum id (docTree Type_Tight)
        (Parse 40 (New MfnStandardExtensions plainText) ''* a\<newline>\<newline>* b\<newline>'')
      = Inr (Rose (Document, False) [Rose (List, False) items]))"
  using tight_list_tree loose_list_tree by simp

end
